theory Spec2Isabelle
  imports Main
begin

section \<open>Data model of mpcoord.go\<close>

text \<open>
  The coordinator is a Go program whose functions return nothing and act through effects:
  log lines, goroutines, sockets, an external \<^verbatim>\<open>make\<close> process and \<^verbatim>\<open>os.Exit\<close>.
  Each Go function is embedded as a HOL function that returns the sequence of effects the
  call performs, in program order, together with the way the call ends. The results of
  calls that leave the program (the random generator, the network, the child process) are
  arguments of the model, so every theorem holds for all of them.
\<close>

text \<open>\<^verbatim>\<open>peer.ID\<close>, an opaque comparable identifier, written by its base58 text.\<close>

type_synonym peer_id = string

text \<open>\<^verbatim>\<open>peer.AddrInfo\<close>: a peer identifier and the multiaddresses known for it.\<close>

record AddrInfo =
  ID :: peer_id
  Addrs :: "string list"

text \<open>
  The two kinds of byte stream the forwarder joins: a libp2p \<^verbatim>\<open>network.Stream\<close> and a TCP
  \<^verbatim>\<open>net.Conn\<close>, each named by a number.
\<close>

datatype endpoint = Stream nat | Conn nat

text \<open>\<^verbatim>\<open>exec.Cmd\<close>, with the fields that \<^verbatim>\<open>runExternal\<close> sets.\<close>

datatype os_file = os_Stdout | os_Stderr

record Cmd =
  Path :: string
  Args :: "string list"
  Env :: "string list"
  Stdout :: os_file
  Stderr :: os_file

text \<open>The operands of a \<^verbatim>\<open>log.Println\<close> call: text, an error, a peer address, a peer identifier.\<close>

datatype logval = Str string | Err string | Info AddrInfo | Pid peer_id

text \<open>
  What a \<^verbatim>\<open>go\<close> statement starts. \<open>accept_task port remotePeer\<close> is the anonymous accept loop
  of \<^verbatim>\<open>Serve\<close> on the listener bound to \<open>port\<close>; \<open>poll_task\<close> is the anonymous polling loop
  of \<^verbatim>\<open>startDiscovery\<close>.
\<close>

datatype task =
    runExternal_task string nat
  | forward_task endpoint endpoint
  | accept_task nat peer_id
  | handleLocalConnection_task endpoint peer_id
  | poll_task

text \<open>
  The effects. \<open>Dial p\<close> and \<open>Listen p\<close> stand for \<^verbatim>\<open>net.Dial("tcp", ":p")\<close> and
  \<^verbatim>\<open>net.Listen("tcp", ":p")\<close>, \<open>libp2p_New p\<close> for \<^verbatim>\<open>libp2p.New\<close> with the listen address
  \<^verbatim>\<open>/ip4/0.0.0.0/tcp/p\<close>; \<open>Sleep n\<close> sleeps \<open>n\<close> seconds; \<open>Exit n\<close> is \<^verbatim>\<open>os.Exit(n)\<close>, which
  ends the whole process with all its goroutines; \<open>Write d b\<close> is a completed write of the
  bytes \<open>b\<close> to \<open>d\<close>; \<open>Send p\<close> is the channel send \<^verbatim>\<open>peerChan <- p\<close>.
\<close>

datatype event =
    Println "logval list"
  | Exit nat
  | Go task
  | Sleep nat
  | Dial nat
  | Listen nat
  | Accept nat
  | Run Cmd
  | Write endpoint string
  | Close endpoint
  | Connect AddrInfo
  | NewStream peer_id string
  | Advertise string
  | FindPeers string
  | Send AddrInfo
  | libp2p_New nat
  | kaddht_New
  | Bootstrap

text \<open>
  How a call ends: it returns to its caller, the process exits under it, or it never
  returns (it blocks, or loops for as long as the process lives).
\<close>

datatype status = Returns | Exits | Blocks

type_synonym run = "event list \<times> status"

text \<open>Sequential composition: the second part runs only if the first returns.\<close>

fun then_run :: "run \<Rightarrow> run \<Rightarrow> run" where
  "then_run (t, Returns) (t', r) = (t @ t', r)"
| "then_run (t, Exits) _ = (t, Exits)"
| "then_run (t, Blocks) _ = (t, Blocks)"

text \<open>\<^verbatim>\<open>log.Fatal(err)\<close>: print the error, then \<^verbatim>\<open>os.Exit(1)\<close>.\<close>

definition log_Fatal :: "string \<Rightarrow> run" where
  "log_Fatal err = ([Println [Err err], Exit 1], Exits)"

definition Protocol :: string where
  "Protocol = ''/mpcoord/0.0.1''"

definition Rendezvous :: string where
  "Rendezvous = ''/mpcoord''"

subsection \<open>Decimal formatting\<close>

text \<open>\<^verbatim>\<open>fmt.Sprintf("%d", n)\<close> for a number that is not negative, as all ports here are.\<close>

definition digit_char :: "nat \<Rightarrow> char" where
  "digit_char d = ''0123456789'' ! d"

fun show_nat :: "nat \<Rightarrow> string" where
  "show_nat n = (if n < 10 then [digit_char n] else show_nat (n div 10) @ [digit_char (n mod 10)])"

declare show_nat.simps [simp del]

section \<open>The functions of mpcoord.go\<close>

subsection \<open>Port choice\<close>

text \<open>
  The three places that draw a port, each as \<^verbatim>\<open>base + rand.Intn(10000)\<close>. The argument \<open>r\<close>
  is the value \<^verbatim>\<open>rand.Intn(10000)\<close> returned, which the library promises to lie in
  \<open>[0, 10000)\<close>: \<open>host_port\<close> in \<^verbatim>\<open>makeRandomHost\<close>, \<open>incoming_port\<close> in
  \<^verbatim>\<open>handleRemoteConnection\<close>, \<open>outgoing_port\<close> in the loop of \<^verbatim>\<open>main\<close>.
\<close>

definition host_port :: "nat \<Rightarrow> nat" where
  "host_port r = 10000 + r"

definition incoming_port :: "nat \<Rightarrow> nat" where
  "incoming_port r = 20000 + r"

definition outgoing_port :: "nat \<Rightarrow> nat" where
  "outgoing_port r = 30000 + r"

subsection \<open>makeRandomHost\<close>

text \<open>
  \<open>r\<close> is the value of \<^verbatim>\<open>rand.Intn(10000)\<close>; the other arguments are the errors, if any, of
  \<^verbatim>\<open>libp2p.New\<close>, \<^verbatim>\<open>kaddht.New\<close> and \<^verbatim>\<open>dht.Bootstrap\<close>.
\<close>

definition makeRandomHost :: "nat \<Rightarrow> string option \<Rightarrow> string option \<Rightarrow> string option \<Rightarrow> run" where
  "makeRandomHost r new_err dht_err boot_err =
     (let port = host_port r in
      then_run ([libp2p_New port], Returns)
        (case new_err of
           Some err \<Rightarrow> log_Fatal err
         | None \<Rightarrow>
             then_run ([kaddht_New], Returns)
               (case dht_err of
                  Some err \<Rightarrow> log_Fatal err
                | None \<Rightarrow>
                    then_run ([Bootstrap], Returns)
                      (case boot_err of
                         Some err \<Rightarrow> log_Fatal err
                       | None \<Rightarrow> ([], Returns)))))"

subsection \<open>runExternal\<close>

text \<open>
  \<^verbatim>\<open>exec.Command("make", event)\<close> with the environment \<^verbatim>\<open>PORT=<port>\<close> appended to the empty
  one and the standard streams inherited. \<open>run_err\<close> is the error \<^verbatim>\<open>cmd.Run()\<close> returns:
  the command could not be started or did not exit with status 0.
\<close>

definition make_cmd :: "string \<Rightarrow> nat \<Rightarrow> Cmd" where
  "make_cmd event port =
     \<lparr>Path = ''make'', Args = [''make'', event], Env = [] @ [''PORT='' @ show_nat port],
      Stdout = os_Stdout, Stderr = os_Stderr\<rparr>"

definition runExternal :: "string \<Rightarrow> nat \<Rightarrow> string option \<Rightarrow> run" where
  "runExternal event port run_err =
     then_run ([Run (make_cmd event port)], Returns)
       (case run_err of
          Some err \<Rightarrow> log_Fatal err
        | None \<Rightarrow> ([], Returns))"

subsection \<open>Role selection in main\<close>

text \<open>The flags \<^verbatim>\<open>-c\<close>, \<^verbatim>\<open>-R\<close> and \<^verbatim>\<open>-r\<close>.\<close>

record flags =
  remotePeer :: string
  pureRelay :: bool
  relayPeer :: string

definition role_name :: "flags \<Rightarrow> string" where
  "role_name f =
     (if pureRelay f then ''relay''
      else if remotePeer f \<noteq> '''' then ''client''
      else ''server'')"

subsection \<open>forward\<close>

text \<open>
  \<^verbatim>\<open>io.Copy(dst, src)\<close> belongs to Go's standard library; its copy loop is modelled as
  documented. Each read of \<open>src\<close> returns some bytes, possibly none, and possibly an end: the
  end of the stream or an error. The bytes of a read, if there are any, are written to
  \<open>dst\<close> before the end of that read is looked at. A write that returns an error, or that
  returns fewer bytes than it was given, ends the copy with that error or with
  \<^verbatim>\<open>io.ErrShortWrite\<close>; a write that claims more bytes than it was given counts as nothing
  written and ends it with \<^verbatim>\<open>invalid write result\<close>. The copy returns the first error it
  meets, and the end of the stream is not an error.

  The source is given by the results of its successive reads; a source whose reads are
  used up is at the end of its stream. The destination is given by the result of its
  \<open>k\<close>-th \<^verbatim>\<open>Write\<close> call: \<open>Full\<close> when all bytes are written without error, \<open>Partial n err\<close>
  when the call returns the count \<open>n\<close> and the error \<open>err\<close>.
\<close>

datatype read_end = EOF | Failed string

datatype read_result = Read string "read_end option"

datatype write_result = Full | Partial nat "string option"

definition ErrShortWrite :: string where
  "ErrShortWrite = ''short write''"

definition errInvalidWrite :: string where
  "errInvalidWrite = ''invalid write result''"

text \<open>The error the copy takes from one write of the bytes \<open>b\<close>, and the bytes it counts as written.\<close>

fun write_error :: "write_result \<Rightarrow> string \<Rightarrow> string option" where
  "write_error Full b = None"
| "write_error (Partial nw ew) b =
     (if length b < nw then (case ew of None \<Rightarrow> Some errInvalidWrite | Some e \<Rightarrow> Some e)
      else
        (case ew of
           Some e \<Rightarrow> Some e
         | None \<Rightarrow> if nw \<noteq> length b then Some ErrShortWrite else None))"

fun write_bytes :: "write_result \<Rightarrow> string \<Rightarrow> string" where
  "write_bytes Full b = b"
| "write_bytes (Partial nw ew) b = (if length b < nw then [] else take nw b)"

fun io_Copy :: "endpoint \<Rightarrow> (nat \<Rightarrow> write_result) \<Rightarrow> nat \<Rightarrow> read_result list
    \<Rightarrow> event list \<times> string option" where
  "io_Copy dst wr k [] = ([], None)"
| "io_Copy dst wr k (Read b er # rest) =
     (if b \<noteq> [] \<and> write_error (wr k) b \<noteq> None
      then ([Write dst (write_bytes (wr k) b)], write_error (wr k) b)
      else
        (case er of
           Some EOF \<Rightarrow> (if b = [] then [] else [Write dst b], None)
         | Some (Failed e) \<Rightarrow> (if b = [] then [] else [Write dst b], Some e)
         | None \<Rightarrow>
             (let (t, err) = io_Copy dst wr (if b = [] then k else Suc k) rest in
              ((if b = [] then [] else [Write dst b]) @ t, err))))"

definition forward :: "endpoint \<Rightarrow> (nat \<Rightarrow> write_result) \<Rightarrow> read_result list \<Rightarrow> run" where
  "forward dst wr src =
     (let (t, err) = io_Copy dst wr 0 src in
      (t @ (case err of Some e \<Rightarrow> [Println [Err e]] | None \<Rightarrow> []) @ [Close dst], Returns))"

subsection \<open>handleRemoteConnection\<close>

text \<open>
  \<open>r\<close> is the value of \<^verbatim>\<open>rand.Intn(10000)\<close>, \<open>dial i\<close> the result of the \<^verbatim>\<open>net.Dial\<close> of loop
  iteration \<open>i\<close>: an error or the connection. The text of the warning ends with the three
  bytes of the UTF-8 ellipsis.
\<close>

definition retrying :: string where
  "retrying = '', retrying'' @ [CHR 0xE2, CHR 0x80, CHR 0xA6]"

function dial_loop :: "endpoint \<Rightarrow> nat \<Rightarrow> (nat \<Rightarrow> string + endpoint) \<Rightarrow> nat \<Rightarrow> event list" where
  "dial_loop stream port dial i =
     (if i < 60 then
        (case dial i of
           Inl err \<Rightarrow>
             [Dial port, Println [Str ''Warning:'', Err err, Str retrying], Sleep 1]
             @ dial_loop stream port dial (Suc i)
         | Inr conn \<Rightarrow>
             [Dial port, Go (forward_task stream conn), Go (forward_task conn stream)])
      else [Println [Str ''Error: could not reach local server.'']])"
  by pat_completeness auto
termination
  by (relation "measure (\<lambda>(stream, port, dial, i). 60 - i)") auto

declare dial_loop.simps [simp del]

definition handleRemoteConnection :: "endpoint \<Rightarrow> nat \<Rightarrow> (nat \<Rightarrow> string + endpoint) \<Rightarrow> run" where
  "handleRemoteConnection stream r dial =
     (let port = incoming_port r in
      ([Println [Str ''server: forwarding remote connection to local server''],
        Go (runExternal_task ''incoming-connection'' port)]
       @ dial_loop stream port dial 0, Returns))"

subsection \<open>ProxyService: Serve and handleLocalConnection\<close>

text \<open>\<open>listen_err\<close> is the error of \<^verbatim>\<open>net.Listen\<close>, if any.\<close>

definition Serve :: "peer_id \<Rightarrow> nat \<Rightarrow> string option \<Rightarrow> run" where
  "Serve remote port listen_err =
     then_run ([Println [Str ''client: listening for local requests''], Listen port], Returns)
       (case listen_err of
          Some err \<Rightarrow> log_Fatal err
        | None \<Rightarrow> ([Go (accept_task port remote)], Returns))"

text \<open>\<open>res\<close> is the result of \<^verbatim>\<open>p.host.NewStream\<close>: an error or the stream.\<close>

definition handleLocalConnection :: "endpoint \<Rightarrow> peer_id \<Rightarrow> string + endpoint \<Rightarrow> run" where
  "handleLocalConnection conn remote res =
     then_run
       ([Println [Str ''client: forwarding local connection to remote peer '', Pid remote],
         NewStream remote Protocol], Returns)
       (case res of
          Inl err \<Rightarrow> ([Println [Err err]], Returns)
        | Inr stream \<Rightarrow>
            ([Go (forward_task stream conn), Go (forward_task conn stream)], Returns))"

text \<open>
  The accept loop that \<^verbatim>\<open>Serve\<close> starts never ends by itself. It is run on the results of
  its successive \<^verbatim>\<open>ln.Accept()\<close> calls; when they are used up it is waiting in the next one.
\<close>

fun accept_loop :: "nat \<Rightarrow> peer_id \<Rightarrow> (string + endpoint) list \<Rightarrow> run" where
  "accept_loop port remote [] = ([Accept port], Blocks)"
| "accept_loop port remote (Inl err # rest) = then_run ([Accept port], Returns) (log_Fatal err)"
| "accept_loop port remote (Inr conn # rest) =
     then_run ([Accept port, Go (handleLocalConnection_task conn remote)], Returns)
       (accept_loop port remote rest)"

subsection \<open>startDiscovery\<close>

text \<open>
  The inner loop over the peers one \<^verbatim>\<open>FindPeers\<close> query delivers; \<open>self\<close> is
  \<^verbatim>\<open>dht.Host().ID()\<close>.
\<close>

fun push_peers :: "peer_id \<Rightarrow> AddrInfo list \<Rightarrow> event list" where
  "push_peers self [] = []"
| "push_peers self (peerInfo # rest) =
     (if ID peerInfo \<noteq> self then [Send peerInfo] else []) @ push_peers self rest"

text \<open>
  The polling loop never ends by itself. It is run on the results of its successive
  \<^verbatim>\<open>FindPeers\<close> queries, each an error or the peers delivered; when they are used up the
  loop is still alive.
\<close>

fun poll_loop :: "peer_id \<Rightarrow> (string + AddrInfo list) list \<Rightarrow> run" where
  "poll_loop self [] = ([], Blocks)"
| "poll_loop self (Inl err # rest) = then_run ([FindPeers Rendezvous], Returns) (log_Fatal err)"
| "poll_loop self (Inr peers # rest) =
     then_run ([FindPeers Rendezvous] @ push_peers self peers @ [Sleep 60], Returns)
       (poll_loop self rest)"

definition startDiscovery :: run where
  "startDiscovery = ([Advertise Rendezvous, Go poll_task], Returns)"

subsection \<open>The main loop\<close>

text \<open>
  \<open>parse\<close> is the error of \<^verbatim>\<open>ma.NewMultiaddr\<close> on a text, if any; a parsed multiaddress is
  written by its text, and \<^verbatim>\<open>peer.IDB58Encode\<close> gives the text of the identifier.
\<close>

definition addRelayAddress :: "(string \<Rightarrow> string option) \<Rightarrow> string \<Rightarrow> AddrInfo
    \<Rightarrow> event list \<times> AddrInfo" where
  "addRelayAddress parse relayAddr peerInfo =
     (if relayAddr = '''' then ([], peerInfo)
      else
        (let addr = relayAddr @ ''/p2p-circuit/p2p/'' @ ID peerInfo in
         case parse addr of
           Some err \<Rightarrow> ([Println [Str ''Warning:'', Err err]], peerInfo)
         | None \<Rightarrow> ([], peerInfo\<lparr>Addrs := Addrs peerInfo @ [addr]\<rparr>)))"

text \<open>
  What the world answers during one iteration of the loop: the error of \<^verbatim>\<open>host.Connect\<close>,
  the value of \<^verbatim>\<open>rand.Intn(10000)\<close>, the error of \<^verbatim>\<open>net.Listen\<close> and the error of
  \<^verbatim>\<open>cmd.Run()\<close>. An answer is read only if the iteration gets to ask.
\<close>

record answers =
  Connect_err :: "string option"
  Intn :: nat
  Listen_err :: "string option"
  Run_err :: "string option"

definition loop_body :: "(string \<Rightarrow> string option) \<Rightarrow> string \<Rightarrow> answers \<Rightarrow> AddrInfo \<Rightarrow> run" where
  "loop_body parse relay a peerInfo =
     (let (warn, peerInfo') = addRelayAddress parse relay peerInfo in
      then_run ([Println [Str ''Found peer'', Info peerInfo]] @ warn @ [Connect peerInfo'], Returns)
        (case Connect_err a of
           Some err \<Rightarrow> ([Println [Str ''Failed to connect, skipping'']], Returns)
         | None \<Rightarrow>
             (let port = outgoing_port (Intn a) in
              then_run (Serve (ID peerInfo') port (Listen_err a))
                (runExternal ''outgoing-connection'' port (Run_err a)))))"

text \<open>
  \<^verbatim>\<open>for peerInfo := range peerChan\<close> on the peers received; \<open>w i\<close> holds the answers of
  iteration \<open>i\<close>. \<open>closed\<close> tells whether the channel is closed behind these peers. In client
  mode \<^verbatim>\<open>main\<close> closes it after the one peer it put in, so the loop ends and returns. The
  channel of \<^verbatim>\<open>startDiscovery\<close> is never closed, so after the last peer received the loop
  waits for the next one.
\<close>

fun main_loop :: "(string \<Rightarrow> string option) \<Rightarrow> string \<Rightarrow> (nat \<Rightarrow> answers) \<Rightarrow> bool \<Rightarrow> nat
    \<Rightarrow> AddrInfo list \<Rightarrow> run" where
  "main_loop parse relay w closed i [] = ([], if closed then Returns else Blocks)"
| "main_loop parse relay w closed i (peerInfo # rest) =
     then_run (loop_body parse relay (w i) peerInfo)
       (main_loop parse relay w closed (Suc i) rest)"

section \<open>Observing a run\<close>

text \<open>The peers a run sends on the channel, in order.\<close>

fun sent :: "event list \<Rightarrow> AddrInfo list" where
  "sent [] = []"
| "sent (Send p # es) = p # sent es"
| "sent (_ # es) = sent es"

text \<open>The peers that the queries hand to the polling loop before the first failing query.\<close>

fun delivered :: "(string + AddrInfo list) list \<Rightarrow> AddrInfo list" where
  "delivered [] = []"
| "delivered (Inl err # rest) = []"
| "delivered (Inr peers # rest) = peers @ delivered rest"

text \<open>The bytes a run writes to an endpoint, in order.\<close>

fun written :: "endpoint \<Rightarrow> event list \<Rightarrow> string" where
  "written d [] = []"
| "written d (Write d' b # es) = (if d' = d then b else []) @ written d es"
| "written d (_ # es) = written d es"

text \<open>
  What a source yields up to its end, as the sequence of its reads that hold bytes, and
  the error its stream ends with, if it ends with one.
\<close>

fun chunks :: "read_result list \<Rightarrow> string list" where
  "chunks [] = []"
| "chunks (Read b None # rest) = (if b = [] then [] else [b]) @ chunks rest"
| "chunks (Read b (Some e) # rest) = (if b = [] then [] else [b])"

fun read_error :: "read_result list \<Rightarrow> string option" where
  "read_error [] = None"
| "read_error (Read b None # rest) = read_error rest"
| "read_error (Read b (Some EOF) # rest) = None"
| "read_error (Read b (Some (Failed e)) # rest) = Some e"

definition readable :: "read_result list \<Rightarrow> string" where
  "readable src = concat (chunks src)"

text \<open>A read that does not end the stream.\<close>

fun no_end :: "read_result \<Rightarrow> bool" where
  "no_end (Read b er) = (er = None)"

fun is_Exit :: "event \<Rightarrow> bool" where
  "is_Exit (Exit n) = True"
| "is_Exit _ = False"

fun is_Dial :: "event \<Rightarrow> bool" where
  "is_Dial (Dial p) = True"
| "is_Dial _ = False"

fun is_Println :: "event \<Rightarrow> bool" where
  "is_Println (Println vs) = True"
| "is_Println _ = False"

fun is_Close :: "event \<Rightarrow> bool" where
  "is_Close (Close d) = True"
| "is_Close _ = False"


text \<open>
  An event that closes an endpoint or hands it to a forwarder as its destination, which
  closes it when the copy ends.
\<close>

fun closes :: "endpoint \<Rightarrow> event \<Rightarrow> bool" where
  "closes ep (Close d) = (d = ep)"
| "closes ep (Go (forward_task dst src)) = (dst = ep)"
| "closes ep _ = False"

text \<open>An event that belongs to setting up a tunnel: a listener, a goroutine, a backend.\<close>

fun starts_tunnel :: "event \<Rightarrow> bool" where
  "starts_tunnel (Listen p) = True"
| "starts_tunnel (Accept p) = True"
| "starts_tunnel (Go t) = True"
| "starts_tunnel (Run c) = True"
| "starts_tunnel _ = False"

text \<open>The first events of every loop iteration, up to the \<^verbatim>\<open>host.Connect\<close> call.\<close>

definition found :: "(string \<Rightarrow> string option) \<Rightarrow> string \<Rightarrow> AddrInfo \<Rightarrow> event list" where
  "found parse relay p =
     [Println [Str ''Found peer'', Info p]] @ fst (addRelayAddress parse relay p)
     @ [Connect (snd (addRelayAddress parse relay p))]"

text \<open>The ports an event names.\<close>

fun task_ports :: "task \<Rightarrow> nat list" where
  "task_ports (runExternal_task event port) = [port]"
| "task_ports (accept_task port remote) = [port]"
| "task_ports _ = []"

fun event_ports :: "event \<Rightarrow> nat list" where
  "event_ports (Go t) = task_ports t"
| "event_ports (Dial p) = [p]"
| "event_ports (Listen p) = [p]"
| "event_ports (Accept p) = [p]"
| "event_ports (libp2p_New p) = [p]"
| "event_ports _ = []"

definition ports_of :: "event list \<Rightarrow> nat list" where
  "ports_of t = concat (map event_ports t)"



section \<open>Sample inputs\<close>

definition parse_ok :: "string \<Rightarrow> string option" where
  "parse_ok addr = None"

definition peer_A :: AddrInfo where
  "peer_A = \<lparr>ID = ''QmA'', Addrs = [''/ip4/10.0.0.1/tcp/10001'']\<rparr>"

definition peer_B :: AddrInfo where
  "peer_B = \<lparr>ID = ''QmB'', Addrs = [''/ip4/10.0.0.2/tcp/10002'']\<rparr>"

definition launch_fails :: "nat \<Rightarrow> answers" where
  "launch_fails i =
     \<lparr>Connect_err = None, Intn = 7, Listen_err = None, Run_err = Some ''exit status 2''\<rparr>"

definition bind_fails :: "nat \<Rightarrow> answers" where
  "bind_fails i =
     \<lparr>Connect_err = None, Intn = 7, Listen_err = Some ''bind: address already in use'',
      Run_err = None\<rparr>"

definition refused :: "nat \<Rightarrow> string + endpoint" where
  "refused i = Inl ''connect: connection refused''"

definition connect_fails_first :: "nat \<Rightarrow> answers" where
  "connect_fails_first i =
     \<lparr>Connect_err = (if i = 0 then Some ''dial backoff'' else None), Intn = 7,
      Listen_err = None, Run_err = None\<rparr>"


definition all_full :: "nat \<Rightarrow> write_result" where
  "all_full k = Full"

definition second_write_fails :: "nat \<Rightarrow> write_result" where
  "second_write_fails k = (if k = 1 then Partial 1 (Some ''write: broken pipe'') else Full)"

section \<open>Properties\<close>

subsection \<open>Composition and the single calls\<close>

lemma fst_then_run: "fst (then_run a b) = fst a @ (if snd a = Returns then fst b else [])"
  by (cases "(a, b)" rule: then_run.cases) auto

lemma snd_then_run: "snd (then_run a b) = (if snd a = Returns then snd b else snd a)"
  by (cases "(a, b)" rule: then_run.cases) auto

lemma runExternal_failed:
  "runExternal event port (Some err) =
     ([Run (make_cmd event port), Println [Err err], Exit 1], Exits)"
  by (simp add: runExternal_def log_Fatal_def)

lemma runExternal_ok: "runExternal event port None = ([Run (make_cmd event port)], Returns)"
  by (simp add: runExternal_def)

lemma Serve_failed:
  "Serve remote port (Some err) =
     ([Println [Str ''client: listening for local requests''], Listen port,
       Println [Err err], Exit 1], Exits)"
  by (simp add: Serve_def log_Fatal_def)

lemma Serve_ok:
  "Serve remote port None =
     ([Println [Str ''client: listening for local requests''], Listen port,
       Go (accept_task port remote)], Returns)"
  by (simp add: Serve_def)

lemma addRelayAddress_logs: "\<not> list_ex starts_tunnel (fst (addRelayAddress parse relay p))"
  by (simp add: addRelayAddress_def Let_def split: option.splits)

text \<open>The four ways one iteration of the main loop can go.\<close>

lemma loop_body_cases:
  "loop_body parse relay a p =
     (case Connect_err a of
        Some err \<Rightarrow> (found parse relay p @ [Println [Str ''Failed to connect, skipping'']], Returns)
      | None \<Rightarrow>
          (case Listen_err a of
             Some err \<Rightarrow>
               (found parse relay p
                @ [Println [Str ''client: listening for local requests''],
                   Listen (outgoing_port (Intn a)), Println [Err err], Exit 1], Exits)
           | None \<Rightarrow>
               (case Run_err a of
                  Some err \<Rightarrow>
                    (found parse relay p
                     @ [Println [Str ''client: listening for local requests''],
                        Listen (outgoing_port (Intn a)),
                        Go (accept_task (outgoing_port (Intn a))
                              (ID (snd (addRelayAddress parse relay p)))),
                        Run (make_cmd ''outgoing-connection'' (outgoing_port (Intn a))),
                        Println [Err err], Exit 1], Exits)
                | None \<Rightarrow>
                    (found parse relay p
                     @ [Println [Str ''client: listening for local requests''],
                        Listen (outgoing_port (Intn a)),
                        Go (accept_task (outgoing_port (Intn a))
                              (ID (snd (addRelayAddress parse relay p)))),
                        Run (make_cmd ''outgoing-connection'' (outgoing_port (Intn a)))],
                     Returns))))"
  by (simp add: loop_body_def found_def Serve_failed Serve_ok runExternal_failed runExternal_ok
      Let_def split: prod.splits option.splits)

subsection \<open>Backend launch failure\<close>

text \<open>
  C1, as the code has it. When \<^verbatim>\<open>cmd.Run()\<close> returns an error, \<^verbatim>\<open>runExternal\<close> logs it and
  ends the whole process with exit status 1, in both launch modes. In the main loop the
  iteration of that peer ends with the exit and no later peer of the queue is processed.
\<close>

theorem launch_failure_exits_process:
  "runExternal event port (Some err) =
     ([Run (make_cmd event port), Println [Err err], Exit 1], Exits)
   \<and> (Connect_err (w i) = None \<and> Listen_err (w i) = None \<and> Run_err (w i) = Some err \<longrightarrow>
        main_loop parse relay w closed i (p # rest) = (fst (loop_body parse relay (w i) p), Exits)
        \<and> last (fst (loop_body parse relay (w i) p)) = Exit 1)"
  by (simp add: runExternal_failed loop_body_cases)

theorem launch_failure_exits_process_witness:
  "Connect_err (launch_fails 0) = None \<and> Listen_err (launch_fails 0) = None
   \<and> Run_err (launch_fails 0) = Some ''exit status 2''
   \<and> main_loop parse_ok '''' launch_fails False 0 [peer_A, peer_B]
       = (fst (loop_body parse_ok '''' (launch_fails 0) peer_A), Exits)
   \<and> last (fst (loop_body parse_ok '''' (launch_fails 0) peer_A)) = Exit 1"
  using launch_failure_exits_process
    [where w = launch_fails and closed = False and i = 0 and err = "''exit status 2''" and parse = parse_ok
       and relay = "''''" and p = peer_A and rest = "[peer_B]"]
  by (simp add: launch_fails_def)

text \<open>
  C1 as stated fails: with two peers queued and a backend that exits with an error, the
  process exits while handling the first peer and never connects to the second; the
  launch of an incoming backend ends the process in the same way.
\<close>

theorem launch_failure_counterexample:
  "snd (runExternal ''incoming-connection'' 20007 (Some ''exit status 2'')) = Exits
   \<and> snd (main_loop parse_ok '''' launch_fails False 0 [peer_A, peer_B]) = Exits
   \<and> Connect peer_B \<notin> set (fst (main_loop parse_ok '''' launch_fails False 0 [peer_A, peer_B]))"
  by (simp add: runExternal_failed loop_body_cases launch_fails_def found_def addRelayAddress_def
      peer_A_def peer_B_def)

subsection \<open>Listener bind failure\<close>

text \<open>
  C3, as the code has it. When \<^verbatim>\<open>net.Listen\<close> fails, \<^verbatim>\<open>Serve\<close> logs the error and ends the
  whole process with exit status 1. The iteration of that peer has tried the one port it
  drew and nothing else: no accept loop, no backend, no second port, and no later peer.
\<close>

theorem bind_failure_exits_process:
  "Serve remote port (Some err) =
     ([Println [Str ''client: listening for local requests''], Listen port,
       Println [Err err], Exit 1], Exits)
   \<and> (Connect_err (w i) = None \<and> Listen_err (w i) = Some err \<longrightarrow>
        main_loop parse relay w closed i (p # rest) = (fst (loop_body parse relay (w i) p), Exits)
        \<and> last (fst (loop_body parse relay (w i) p)) = Exit 1
        \<and> filter starts_tunnel (fst (loop_body parse relay (w i) p))
            = [Listen (outgoing_port (Intn (w i)))])"
  using addRelayAddress_logs [of parse relay p]
  by (simp add: Serve_failed loop_body_cases found_def list_ex_iff filter_empty_conv)

theorem bind_failure_exits_process_witness:
  "Connect_err (bind_fails 0) = None
   \<and> Listen_err (bind_fails 0) = Some ''bind: address already in use''
   \<and> main_loop parse_ok '''' bind_fails False 0 [peer_A, peer_B]
       = (fst (loop_body parse_ok '''' (bind_fails 0) peer_A), Exits)
   \<and> filter starts_tunnel (fst (loop_body parse_ok '''' (bind_fails 0) peer_A)) = [Listen 30007]"
  using bind_failure_exits_process
    [where w = bind_fails and closed = False and i = 0 and err = "''bind: address already in use''"
       and parse = parse_ok and relay = "''''" and p = peer_A and rest = "[peer_B]"]
  by (simp add: bind_fails_def outgoing_port_def)

text \<open>
  C3 as stated fails: with two peers queued and a port that cannot be bound, the process
  exits in the first call of \<^verbatim>\<open>Serve\<close>; the one \<^verbatim>\<open>Listen\<close> is all that was tried.
\<close>

theorem bind_failure_counterexample:
  "snd (Serve ''QmA'' 30007 (Some ''bind: address already in use'')) = Exits
   \<and> snd (main_loop parse_ok '''' bind_fails False 0 [peer_A, peer_B]) = Exits
   \<and> filter starts_tunnel (fst (main_loop parse_ok '''' bind_fails False 0 [peer_A, peer_B]))
       = [Listen 30007]"
  by (simp add: Serve_failed loop_body_cases bind_fails_def found_def addRelayAddress_def
      peer_A_def peer_B_def outgoing_port_def)

subsection \<open>Discovery\<close>

lemma sent_append: "sent (xs @ ys) = sent xs @ sent ys"
  by (induction xs rule: sent.induct) auto

lemma sent_push_peers: "sent (push_peers self peers) = filter (\<lambda>p. ID p \<noteq> self) peers"
  by (induction peers) (auto simp: sent_append)

lemma sent_poll_loop:
  "sent (fst (poll_loop self results)) = filter (\<lambda>p. ID p \<noteq> self) (delivered results)"
  by (induction results rule: delivered.induct)
     (auto simp: fst_then_run sent_append sent_push_peers log_Fatal_def)

text \<open>
  C4. Of the peers one query delivers, the polling loop sends exactly those whose
  identifier is not the node's own, in the order delivered; over any number of rounds it
  sends exactly those of all the peers delivered, and never the node's own identifier.
\<close>

theorem discovery_filters_self:
  "sent (push_peers self peers) = filter (\<lambda>p. ID p \<noteq> self) peers
   \<and> sent (fst (poll_loop self results)) = filter (\<lambda>p. ID p \<noteq> self) (delivered results)
   \<and> self \<notin> ID ` set (sent (fst (poll_loop self results)))"
  by (auto simp: sent_push_peers sent_poll_loop)

subsection \<open>A failed connect\<close>

text \<open>
  C5. When \<^verbatim>\<open>host.Connect\<close> fails for a peer, its iteration logs the failure and returns;
  it binds no listener, starts no goroutine and launches no backend; and the loop goes on
  with the rest of the queue, whose run follows unchanged.
\<close>

theorem failed_connect_skips_peer:
  assumes "Connect_err (w i) = Some err"
  shows "loop_body parse relay (w i) p =
           ([Println [Str ''Found peer'', Info p]] @ fst (addRelayAddress parse relay p)
            @ [Connect (snd (addRelayAddress parse relay p)),
               Println [Str ''Failed to connect, skipping'']], Returns)
         \<and> \<not> list_ex starts_tunnel (fst (loop_body parse relay (w i) p))
         \<and> main_loop parse relay w closed i (p # rest) =
             (fst (loop_body parse relay (w i) p)
              @ fst (main_loop parse relay w closed (Suc i) rest),
              snd (main_loop parse relay w closed (Suc i) rest))"
proof -
  have b: "loop_body parse relay (w i) p =
           ([Println [Str ''Found peer'', Info p]] @ fst (addRelayAddress parse relay p)
            @ [Connect (snd (addRelayAddress parse relay p)),
               Println [Str ''Failed to connect, skipping'']], Returns)"
    using assms by (simp add: loop_body_cases found_def)
  have n: "\<not> list_ex starts_tunnel (fst (loop_body parse relay (w i) p))"
    using addRelayAddress_logs [of parse relay p] by (simp add: b)
  have m: "main_loop parse relay w closed i (p # rest) =
             (fst (loop_body parse relay (w i) p)
              @ fst (main_loop parse relay w closed (Suc i) rest),
              snd (main_loop parse relay w closed (Suc i) rest))"
    by (cases "main_loop parse relay w closed (Suc i) rest") (simp add: b)
  from b n m show ?thesis by blast
qed

theorem failed_connect_skips_peer_witness:
  "Connect_err (connect_fails_first 0) = Some ''dial backoff''
   \<and> main_loop parse_ok '''' connect_fails_first False 0 [peer_A, peer_B] =
       ([Println [Str ''Found peer'', Info peer_A], Connect peer_A,
         Println [Str ''Failed to connect, skipping''],
         Println [Str ''Found peer'', Info peer_B], Connect peer_B,
         Println [Str ''client: listening for local requests''], Listen 30007,
         Go (accept_task 30007 ''QmB''), Run (make_cmd ''outgoing-connection'' 30007)], Blocks)"
  using failed_connect_skips_peer [where w = connect_fails_first and closed = False and i = 0
      and err = "''dial backoff''" and parse = parse_ok and relay = "''''" and p = peer_A
      and rest = "[peer_B]"]
  by (simp add: connect_fails_first_def loop_body_cases found_def addRelayAddress_def
      outgoing_port_def peer_B_def)

subsection \<open>The byte forwarder\<close>

lemma written_append: "written d (xs @ ys) = written d xs @ written d ys"
  by (induction d xs rule: written.induct) auto

lemma write_bytes_prefix: "\<exists>r. b = write_bytes res b @ r"
proof (cases res)
  case Full
  then show ?thesis by simp
next
  case (Partial nw ew)
  have "\<exists>r. b = take nw b @ r"
    by (rule exI [of _ "drop nw b"]) simp
  then show ?thesis using Partial by auto
qed

lemma write_bytes_ok: "write_error res b = None \<Longrightarrow> write_bytes res b = b"
  by (cases res) (auto split: if_splits option.splits)

lemma io_Copy_written:
  "\<exists>rest. readable src = written dst (fst (io_Copy dst wr k src)) @ rest"
proof (induction dst wr k src rule: io_Copy.induct)
  case (1 dst wr k)
  show ?case by (simp add: readable_def)
next
  case (2 dst wr k b er rest)
  show ?case
  proof (cases "b \<noteq> [] \<and> write_error (wr k) b \<noteq> None")
    case True
    obtain r where r: "b = write_bytes (wr k) b @ r"
      using write_bytes_prefix by blast
    have "readable (Read b er # rest) = b @ (case er of None \<Rightarrow> readable rest | Some x \<Rightarrow> [])"
      by (cases er) (simp_all add: readable_def)
    then have "readable (Read b er # rest)
        = write_bytes (wr k) b @ r @ (case er of None \<Rightarrow> readable rest | Some x \<Rightarrow> [])"
      using r by (metis append.assoc)
    with True show ?thesis by auto
  next
    case False
    show ?thesis
    proof (cases er)
      case None
      with False 2 [OF False None] show ?thesis
        by (auto simp: readable_def split: prod.splits)
    next
      case (Some x)
      with False show ?thesis by (cases x) (auto simp: readable_def)
    qed
  qed
qed

lemma io_Copy_clean:
  "snd (io_Copy dst wr k src) = None \<Longrightarrow> written dst (fst (io_Copy dst wr k src)) = readable src"
proof (induction dst wr k src rule: io_Copy.induct)
  case (1 dst wr k)
  show ?case by (simp add: readable_def)
next
  case (2 dst wr k b er rest)
  from 2(2) have ok: "\<not> (b \<noteq> [] \<and> write_error (wr k) b \<noteq> None)"
    by (auto split: if_splits)
  show ?case
  proof (cases er)
    case None
    with ok 2(1) [OF ok None] 2(2) show ?thesis
      by (auto simp: readable_def split: prod.splits)
  next
    case (Some x)
    with ok 2(2) show ?thesis by (cases x) (auto simp: readable_def)
  qed
qed

lemma io_Copy_quiet:
  "\<not> list_ex is_Exit (fst (io_Copy dst wr k src))
   \<and> \<not> list_ex is_Println (fst (io_Copy dst wr k src))
   \<and> filter is_Close (fst (io_Copy dst wr k src)) = []"
  by (induction dst wr k src rule: io_Copy.induct)
     (auto split: option.splits prod.splits read_end.splits)

text \<open>
  With a destination that takes every write in full, the copy writes each read that holds
  bytes, in order, up to the end of the source, and returns the error the source ended
  with.
\<close>

lemma io_Copy_full:
  "\<forall>j. wr j = Full \<Longrightarrow> io_Copy dst wr k src = (map (Write dst) (chunks src), read_error src)"
proof (induction dst wr k src rule: io_Copy.induct)
  case (1 dst wr k)
  show ?case by simp
next
  case (2 dst wr k b er rest)
  have ok: "\<not> (b \<noteq> [] \<and> write_error (wr k) b \<noteq> None)"
    using 2(2) by simp
  show ?case
  proof (cases er)
    case None
    with ok 2(1) [OF ok None 2(2)] 2(2) show ?thesis by simp
  next
    case (Some x)
    with ok 2(2) show ?thesis by (cases x) simp_all
  qed
qed

text \<open>
  When the reads of \<open>pre\<close> do not end the stream and their writes are taken in full, and
  the write of the next read that holds bytes fails, the copy has written the reads of
  \<open>pre\<close> and what the failed write counts as written, and returns the error of that write.
\<close>

lemma io_Copy_write_fails:
  "list_all no_end pre \<Longrightarrow> \<forall>j < length (chunks pre). wr (k + j) = Full \<Longrightarrow> b \<noteq> [] \<Longrightarrow>
   write_error (wr (k + length (chunks pre))) b = Some e \<Longrightarrow>
   io_Copy dst wr k (pre @ Read b er # post)
     = (map (Write dst) (chunks pre) @ [Write dst (write_bytes (wr (k + length (chunks pre))) b)],
        Some e)"
proof (induction pre arbitrary: k)
  case Nil
  then show ?case by simp
next
  case (Cons x pre)
  obtain c where x: "x = Read c None"
    using Cons.prems(1) by (cases x) simp
  show ?case
  proof (cases "c = []")
    case True
    with x Cons.IH [of k] Cons.prems show ?thesis by simp
  next
    case False
    from Cons.prems(2) x False have full: "wr k = Full" by fastforce
    have shift: "\<forall>j < length (chunks pre). wr (Suc k + j) = Full"
      using Cons.prems(2) x False by fastforce
    have err: "write_error (wr (Suc k + length (chunks pre))) b = Some e"
      using Cons.prems(4) x False by simp
    from Cons.prems(1) have pre: "list_all no_end pre" by simp
    from Cons.IH [OF pre shift Cons.prems(3) err] x False full show ?thesis by simp
  qed
qed

text \<open>
  C6. \<^verbatim>\<open>forward\<close> always returns and never ends the process; its last act is to close
  the destination, after an error as well, and it closes nothing else. What it writes is a
  prefix of what the source yields. When no write fails, it writes every read of the
  source that holds bytes, in order, up to the end of the stream or the first read error;
  a read error is then printed with \<^verbatim>\<open>log.Println\<close> just before the close, and without one
  nothing is printed. When the first writes are taken in full and the next one fails (with
  an error of its own, a short write or an invalid count), it has written those reads
  and what the failed write took, prints that error and closes the destination. Whatever error the copy returns is printed just before the close.
\<close>

theorem forward_contract:
  "snd (forward dst wr src) = Returns
   \<and> \<not> list_ex is_Exit (fst (forward dst wr src))
   \<and> last (fst (forward dst wr src)) = Close dst
   \<and> filter is_Close (fst (forward dst wr src)) = [Close dst]
   \<and> (\<exists>rest. readable src = written dst (fst (forward dst wr src)) @ rest)
   \<and> ((\<forall>j. wr j = Full) \<longrightarrow>
        fst (forward dst wr src)
          = map (Write dst) (chunks src)
            @ (case read_error src of Some e \<Rightarrow> [Println [Err e]] | None \<Rightarrow> [])
            @ [Close dst]
        \<and> written dst (fst (forward dst wr src)) = readable src)
   \<and> (list_all no_end pre \<and> (\<forall>j < length (chunks pre). wr j = Full) \<and> b \<noteq> []
        \<and> write_error (wr (length (chunks pre))) b = Some e \<longrightarrow>
        fst (forward dst wr (pre @ Read b er # post))
          = map (Write dst) (chunks pre)
            @ [Write dst (write_bytes (wr (length (chunks pre))) b), Println [Err e], Close dst])
   \<and> (case snd (io_Copy dst wr 0 src) of
         None \<Rightarrow> written dst (fst (forward dst wr src)) = readable src
                 \<and> \<not> list_ex is_Println (fst (forward dst wr src))
       | Some e \<Rightarrow>
           fst (forward dst wr src) = fst (io_Copy dst wr 0 src) @ [Println [Err e], Close dst])"
proof -
  obtain t err where c: "io_Copy dst wr 0 src = (t, err)"
    by (cases "io_Copy dst wr 0 src")
  have pre: "\<exists>rest. readable src = written dst t @ rest"
    using io_Copy_written [of src dst wr 0] c by simp
  have clean: "err = None \<Longrightarrow> written dst t = readable src"
    using io_Copy_clean [of dst wr 0 src] c by simp
  have f: "forward dst wr src =
      (t @ (case err of Some e \<Rightarrow> [Println [Err e]] | None \<Rightarrow> []) @ [Close dst], Returns)"
    by (simp add: forward_def c)
  have w: "written dst (fst (forward dst wr src)) = written dst t"
    by (cases err) (simp_all add: f written_append)
  have quiet: "\<not> list_ex is_Exit t \<and> \<not> list_ex is_Println t \<and> filter is_Close t = []"
    using io_Copy_quiet [of dst wr 0 src] c by simp
  have closes: "filter is_Close (fst (forward dst wr src)) = [Close dst]"
    using quiet by (cases err) (simp_all add: f)
  have noexit: "\<not> list_ex is_Exit (fst (forward dst wr src))"
    using quiet by (cases err) (simp_all add: f)
  have noprint: "err = None \<Longrightarrow> \<not> list_ex is_Println (fst (forward dst wr src))"
    using quiet by (simp add: f)
  have wm: "written dst (map (Write dst) cs) = concat cs" for cs
    by (induction cs) simp_all
  have full: "(\<forall>j. wr j = Full) \<longrightarrow>
        fst (forward dst wr src)
          = map (Write dst) (chunks src)
            @ (case read_error src of Some e \<Rightarrow> [Println [Err e]] | None \<Rightarrow> [])
            @ [Close dst]
        \<and> written dst (fst (forward dst wr src)) = readable src"
  proof
    assume a: "\<forall>j. wr j = Full"
    have te: "t = map (Write dst) (chunks src)" "err = read_error src"
      using io_Copy_full [OF a, of dst 0 src] c by simp_all
    have tr: "fst (forward dst wr src)
          = map (Write dst) (chunks src)
            @ (case read_error src of Some e \<Rightarrow> [Println [Err e]] | None \<Rightarrow> [])
            @ [Close dst]"
      using te by (simp add: f)
    have "written dst (fst (forward dst wr src)) = readable src"
      using te(1) by (simp add: w wm readable_def)
    with tr show "fst (forward dst wr src)
          = map (Write dst) (chunks src)
            @ (case read_error src of Some e \<Rightarrow> [Println [Err e]] | None \<Rightarrow> [])
            @ [Close dst]
        \<and> written dst (fst (forward dst wr src)) = readable src"
      by simp
  qed
  have fails: "list_all no_end pre \<and> (\<forall>j < length (chunks pre). wr j = Full) \<and> b \<noteq> []
        \<and> write_error (wr (length (chunks pre))) b = Some e \<longrightarrow>
        fst (forward dst wr (pre @ Read b er # post))
          = map (Write dst) (chunks pre)
            @ [Write dst (write_bytes (wr (length (chunks pre))) b), Println [Err e], Close dst]"
  proof
    assume a: "list_all no_end pre \<and> (\<forall>j < length (chunks pre). wr j = Full) \<and> b \<noteq> []
        \<and> write_error (wr (length (chunks pre))) b = Some e"
    then have we: "write_error (wr (0 + length (chunks pre))) b = Some e"
      by simp
    have "io_Copy dst wr 0 (pre @ Read b er # post)
      = (map (Write dst) (chunks pre) @ [Write dst (write_bytes (wr (0 + length (chunks pre))) b)],
         Some e)"
      using a by (intro io_Copy_write_fails we) simp_all
    then show "fst (forward dst wr (pre @ Read b er # post))
          = map (Write dst) (chunks pre)
            @ [Write dst (write_bytes (wr (length (chunks pre))) b), Println [Err e], Close dst]"
      by (simp add: forward_def)
  qed
  have verdict: "(case snd (io_Copy dst wr 0 src) of
         None \<Rightarrow> written dst (fst (forward dst wr src)) = readable src
                 \<and> \<not> list_ex is_Println (fst (forward dst wr src))
       | Some e \<Rightarrow>
           fst (forward dst wr src) = fst (io_Copy dst wr 0 src) @ [Println [Err e], Close dst])"
    using clean noprint by (cases err) (simp_all add: w c, simp_all add: f)
  have basic: "snd (forward dst wr src) = Returns \<and> last (fst (forward dst wr src)) = Close dst"
    by (cases err) (simp_all add: f)
  have prefix: "\<exists>rest. readable src = written dst (fst (forward dst wr src)) @ rest"
    using pre w by simp
  from basic noexit closes prefix full fails verdict show ?thesis by blast
qed

theorem forward_contract_witness:
  "all_full 0 = Full
   \<and> fst (forward (Conn 1) all_full [Read ''ab'' None, Read '''' None, Read ''c'' (Some EOF)])
       = [Write (Conn 1) ''ab'', Write (Conn 1) ''c'', Close (Conn 1)]
   \<and> fst (forward (Conn 1) all_full [Read ''ab'' None, Read '''' (Some (Failed ''reset''))])
       = [Write (Conn 1) ''ab'', Println [Err ''reset''], Close (Conn 1)]
   \<and> second_write_fails 0 = Full
   \<and> second_write_fails 1 = Partial 1 (Some ''write: broken pipe'')
   \<and> fst (forward (Conn 1) second_write_fails
            ([Read ''ab'' None] @ Read ''cd'' None # [Read ''e'' (Some EOF)]))
       = [Write (Conn 1) ''ab'', Write (Conn 1) ''c'', Println [Err ''write: broken pipe''],
          Close (Conn 1)]"
  using forward_contract [where dst = "Conn 1" and wr = all_full
      and src = "[Read ''ab'' None, Read '''' None, Read ''c'' (Some EOF)]" and pre = "[]"
      and b = "[]" and e = "[]" and er = None and post = "[]"]
    forward_contract [where dst = "Conn 1" and wr = all_full
      and src = "[Read ''ab'' None, Read '''' (Some (Failed ''reset''))]" and pre = "[]"
      and b = "[]" and e = "[]" and er = None and post = "[]"]
    forward_contract [where dst = "Conn 1" and wr = second_write_fails and src = "[]"
      and pre = "[Read ''ab'' None]" and b = "''cd''"
      and e = "''write: broken pipe''" and er = None and post = "[Read ''e'' (Some EOF)]"]
  by (simp add: all_full_def second_write_fails_def)

subsection \<open>A failed stream to the remote peer\<close>

text \<open>
  C9. When \<^verbatim>\<open>NewStream\<close> fails, \<^verbatim>\<open>handleLocalConnection\<close> logs the error and returns. It
  neither closes the accepted connection nor starts a forwarder that would close it.
\<close>

theorem failed_stream_leaves_conn_open:
  "handleLocalConnection conn remote (Inl err) =
     ([Println [Str ''client: forwarding local connection to remote peer '', Pid remote],
       NewStream remote Protocol, Println [Err err]], Returns)
   \<and> \<not> list_ex (closes conn) (fst (handleLocalConnection conn remote (Inl err)))"
  by (simp add: handleLocalConnection_def)

subsection \<open>Role selection\<close>

text \<open>
  C10. The role is relay exactly when the relay flag is set, whatever the other flags;
  client exactly when the relay flag is unset and a remote peer address is given; server
  exactly when the relay flag is unset and no remote peer address is given.
\<close>

theorem role_name_precedence:
  "(role_name f = ''relay'') = pureRelay f
   \<and> (role_name f = ''client'') = (\<not> pureRelay f \<and> remotePeer f \<noteq> '''')
   \<and> (role_name f = ''server'') = (\<not> pureRelay f \<and> remotePeer f = '''')"
  by (simp add: role_name_def)

subsection \<open>The dial loop of the inbound handler\<close>

lemma handleRemoteConnection_trace:
  "handleRemoteConnection stream r dial =
     (Println [Str ''server: forwarding remote connection to local server'']
      # Go (runExternal_task ''incoming-connection'' (incoming_port r))
      # dial_loop stream (incoming_port r) dial 0, Returns)"
  by (simp add: handleRemoteConnection_def Let_def)

lemma dial_loop_nonempty: "dial_loop st port dial i \<noteq> []"
  by (subst dial_loop.simps) (simp split: sum.splits)


text \<open>The loop dials at most 60 times, whatever the dials return.\<close>

lemma dial_loop_at_most_60: "length (filter is_Dial (dial_loop st port dial i)) \<le> 60 - i"
proof (induction st port dial i rule: dial_loop.induct)
  case (1 st port dial i)
  show ?case
  proof (cases "i < 60")
    case False
    then show ?thesis by (simp add: dial_loop.simps [of st port dial i])
  next
    case True
    show ?thesis
    proof (cases "dial i")
      case (Inl err)
      with True 1 [of err] show ?thesis
        by (simp add: dial_loop.simps [of st port dial i])
    next
      case (Inr conn)
      with True show ?thesis by (simp add: dial_loop.simps [of st port dial i])
    qed
  qed
qed

text \<open>
  A dial that succeeds at attempt \<open>k < 60\<close> after \<open>k\<close> failures ends the loop with the two
  forwarders started; nothing before that closes the stream.
\<close>

lemma dial_loop_success:
  "i \<le> k \<Longrightarrow> k < 60 \<Longrightarrow> \<forall>j. i \<le> j \<and> j < k \<longrightarrow> (\<exists>e. dial j = Inl e) \<Longrightarrow>
   dial k = Inr conn \<Longrightarrow>
   \<exists>pre. dial_loop st port dial i
           = pre @ [Dial port, Go (forward_task st conn), Go (forward_task conn st)]
         \<and> length (filter is_Dial pre) = k - i
         \<and> \<not> list_ex (closes st) pre"
proof (induction st port dial i rule: dial_loop.induct)
  case (1 st port dial i)
  show ?case
  proof (cases "i = k")
    case True
    with 1(3,5) have "dial_loop st port dial i
        = [] @ [Dial port, Go (forward_task st conn), Go (forward_task conn st)]"
      by (simp add: dial_loop.simps [of st port dial k])
    with True show ?thesis by (intro exI [of _ "[]"]) simp
  next
    case False
    with 1(2) have lt: "i < k" by simp
    with 1(4) obtain err where e: "dial i = Inl err" by auto
    from lt 1(3) have i60: "i < 60" by simp
    from 1(1) [OF i60 e _ 1(3) _ 1(5)] lt 1(4)
    obtain pre where p: "dial_loop st port dial (Suc i)
           = pre @ [Dial port, Go (forward_task st conn), Go (forward_task conn st)]"
         "length (filter is_Dial pre) = k - Suc i" "\<not> list_ex (closes st) pre"
      by auto
    show ?thesis
      apply (rule exI [of _
            "[Dial port, Println [Str ''Warning:'', Err err, Str retrying], Sleep 1] @ pre"])
      using p lt i60 e by (simp add: dial_loop.simps [of st port dial i] Suc_diff_Suc)
  qed
qed

text \<open>
  When every dial fails, the loop dials 60 times, sleeps one second after each, prints the
  error line last, and neither closes the stream nor starts a forwarder.
\<close>

lemma dial_loop_exhausted:
  "\<forall>j<60. \<exists>e. dial j = Inl e \<Longrightarrow>
   length (filter is_Dial (dial_loop st port dial i)) = 60 - i
   \<and> length (filter (\<lambda>e. e = Sleep 1) (dial_loop st port dial i)) = 60 - i
   \<and> last (dial_loop st port dial i) = Println [Str ''Error: could not reach local server.'']
   \<and> \<not> list_ex (closes st) (dial_loop st port dial i)"
proof (induction st port dial i rule: dial_loop.induct)
  case (1 st port dial i)
  show ?case
  proof (cases "i < 60")
    case False
    then show ?thesis by (simp add: dial_loop.simps [of st port dial i])
  next
    case True
    then obtain err where e: "dial i = Inl err" using 1(2) by auto
    with True 1(1) [of err] 1(2) show ?thesis
      by (auto simp add: dial_loop.simps [of st port dial i] dial_loop_nonempty)
  qed
qed

text \<open>
  C2, where the code departs from it. With a backend port that refuses all 60 dials, the
  handler dials 60 times, prints its error line and returns; its run holds no close of
  the inbound stream and no forwarder that would close it, so the stream stays open.
\<close>

theorem exhausted_dials_leave_stream_open:
  "length (filter is_Dial (fst (handleRemoteConnection (Stream 0) 7 refused))) = 60
   \<and> last (fst (handleRemoteConnection (Stream 0) 7 refused))
       = Println [Str ''Error: could not reach local server.'']
   \<and> snd (handleRemoteConnection (Stream 0) 7 refused) = Returns
   \<and> \<not> list_ex (closes (Stream 0)) (fst (handleRemoteConnection (Stream 0) 7 refused))"
  using dial_loop_exhausted [of refused "Stream 0" "incoming_port 7" 0]
  by (simp add: handleRemoteConnection_trace refused_def dial_loop_nonempty)

subsection \<open>Order of the backend launches\<close>











subsection \<open>Port ranges\<close>

lemma ports_of_simps:
  "ports_of [] = []"
  "ports_of (e # es) = event_ports e @ ports_of es"
  "ports_of (xs @ ys) = ports_of xs @ ports_of ys"
  by (simp_all add: ports_of_def)

lemma dial_loop_ports: "list_all (\<lambda>p. p = port) (ports_of (dial_loop st port dial i))"
proof (induction st port dial i rule: dial_loop.induct)
  case (1 st port dial i)
  then show ?case
    by (subst dial_loop.simps) (simp add: ports_of_def split: sum.splits)
qed

lemma found_ports: "ports_of (found parse relay p) = []"
  by (simp add: found_def ports_of_def addRelayAddress_def Let_def split: option.splits)

lemma makeRandomHost_ports:
  "list_all (\<lambda>p. p = host_port r) (ports_of (fst (makeRandomHost r new_err dht_err boot_err)))"
  by (simp add: makeRandomHost_def Let_def log_Fatal_def ports_of_def split: option.splits)

text \<open>
  C8. For every value \<^verbatim>\<open>rand.Intn(10000)\<close> can return, the port of an incoming backend lies
  in \<open>[20000, 29999]\<close>, the port of an outbound listener in \<open>[30000, 39999]\<close> and the listen
  port of the transport host in \<open>[10000, 19999]\<close>, so no two of the three are ever equal.
  Every port the inbound handler names (the backend it starts, its dials) lies in the
  first range, every port an iteration of the main loop names (its listener, its accept
  loop) in the second, and the port \<^verbatim>\<open>makeRandomHost\<close> listens on in the third.
\<close>

theorem port_ranges:
  "r < 10000 \<Longrightarrow> Intn a < 10000 \<Longrightarrow> h < 10000 \<Longrightarrow>
   20000 \<le> incoming_port r \<and> incoming_port r \<le> 29999
   \<and> 30000 \<le> outgoing_port (Intn a) \<and> outgoing_port (Intn a) \<le> 39999
   \<and> 10000 \<le> host_port h \<and> host_port h \<le> 19999
   \<and> incoming_port r \<noteq> outgoing_port (Intn a)
   \<and> incoming_port r \<noteq> host_port h
   \<and> outgoing_port (Intn a) \<noteq> host_port h
   \<and> list_all (\<lambda>p. 20000 \<le> p \<and> p \<le> 29999)
        (ports_of (fst (handleRemoteConnection stream r dial)))
   \<and> list_all (\<lambda>p. 30000 \<le> p \<and> p \<le> 39999)
        (ports_of (fst (loop_body parse relay a peerInfo)))
   \<and> list_all (\<lambda>p. 10000 \<le> p \<and> p \<le> 19999)
        (ports_of (fst (makeRandomHost h new_err dht_err boot_err)))"
proof -
  assume r: "r < 10000" and a: "Intn a < 10000" and h: "h < 10000"
  have d: "list_all (\<lambda>p. 20000 \<le> p \<and> p \<le> 29999)
        (ports_of (dial_loop stream (incoming_port r) dial 0))"
    using dial_loop_ports [of "incoming_port r" stream dial 0] r
    by (auto simp: list_all_iff incoming_port_def)
  have hr: "list_all (\<lambda>p. 20000 \<le> p \<and> p \<le> 29999)
        (ports_of (fst (handleRemoteConnection stream r dial)))"
    using d r by (simp add: handleRemoteConnection_trace ports_of_simps incoming_port_def)
  have lb: "list_all (\<lambda>p. 30000 \<le> p \<and> p \<le> 39999)
        (ports_of (fst (loop_body parse relay a peerInfo)))"
    using a by (simp add: loop_body_cases ports_of_simps found_ports outgoing_port_def
        split: option.splits)
  have mh: "list_all (\<lambda>p. 10000 \<le> p \<and> p \<le> 19999)
        (ports_of (fst (makeRandomHost h new_err dht_err boot_err)))"
    using makeRandomHost_ports [of h new_err dht_err boot_err] h
    by (auto simp: list_all_iff host_port_def)
  show ?thesis
    using r a h hr lb mh by (simp add: incoming_port_def outgoing_port_def host_port_def)
qed

theorem port_ranges_witness:
  "(0::nat) < 10000 \<and> Intn (launch_fails 0) < 10000 \<and> (9999::nat) < 10000
   \<and> incoming_port 0 = 20000 \<and> outgoing_port (Intn (launch_fails 0)) = 30007
   \<and> host_port 9999 = 19999
   \<and> list_all (\<lambda>p. 20000 \<le> p \<and> p \<le> 29999)
        (ports_of (fst (handleRemoteConnection (Stream 0) 0 refused)))
   \<and> list_all (\<lambda>p. 30000 \<le> p \<and> p \<le> 39999)
        (ports_of (fst (loop_body parse_ok '''' (launch_fails 0) peer_A)))
   \<and> ports_of (fst (makeRandomHost 9999 None None None)) = [19999]"
  using port_ranges [where r = 0 and a = "launch_fails 0" and h = 9999 and stream = "Stream 0"
      and dial = refused and parse = parse_ok and relay = "''''" and peerInfo = peer_A
      and new_err = None and dht_err = None and boot_err = None]
  by (simp add: launch_fails_def incoming_port_def outgoing_port_def host_port_def
      makeRandomHost_def ports_of_def)

end
